theory Spec2Isabelle
  imports Main "HOL-Library.Sublist"
begin

section \<open>Text\<close>

text \<open>
  A Python \<open>str\<close> is a sequence of Unicode code points, so text is modelled as a list of
  code points. \<open>len\<close>, \<open>strip\<close>, \<open>in\<close> and concatenation of the source then are
  \<open>length\<close>, \<open>py_strip\<close>, \<open>sublist\<close> and \<open>@\<close> here. ASCII pieces of the
  templates are written as string literals through \<open>ascii\<close>; the Korean words of the
  templates are named constants (romanised names, code points from the source file).
\<close>

type_synonym ustr = "nat list"

definition ascii :: "string \<Rightarrow> ustr" where
  "ascii s = map of_char s"

definition newline :: ustr where
  "newline = [0x0A]"

definition ko_gi :: ustr where
  "ko_gi = [0xAE30]"

definition ko_silseupkochi :: ustr where
  "ko_silseupkochi = [0xC2E4, 0xC2B5, 0xCF54, 0xCE58]"

definition ko_ilcha :: ustr where
  "ko_ilcha = [0xC77C, 0xCC28]"

definition ko_jaesongbu :: ustr where
  "ko_jaesongbu = [0xC7AC, 0xC1A1, 0xBD80]"

definition ko_songbu :: ustr where
  "ko_songbu = [0xC1A1, 0xBD80]"

definition ko_cheombu :: ustr where
  "ko_cheombu = [0xCCA8, 0xBD80]"

definition ko_oryuro :: ustr where
  "ko_oryuro = [0xC624, 0xB958, 0xB85C]"

definition ko_inhan :: ustr where
  "ko_inhan = [0xC778, 0xD55C]"

definition ko_annyeonghasimnikka :: ustr where
  "ko_annyeonghasimnikka = [0xC548, 0xB155, 0xD558, 0xC2ED, 0xB2C8, 0xAE4C]"

definition ko_imnida :: ustr where
  "ko_imnida = [0xC785, 0xB2C8, 0xB2E4]"

definition ko_wol :: ustr where
  "ko_wol = [0xC6D4]"

definition ko_il :: ustr where
  "ko_il = [0xC77C]"

definition ko_bogoseoreul :: ustr where
  "ko_bogoseoreul = [0xBCF4, 0xACE0, 0xC11C, 0xB97C]"

definition ko_sayuro :: ustr where
  "ko_sayuro = [0xC0AC, 0xC720, 0xB85C]"

definition ko_jaesongbudeurimnida :: ustr where
  "ko_jaesongbudeurimnida = [0xC7AC, 0xC1A1, 0xBD80, 0xB4DC, 0xB9BD, 0xB2C8, 0xB2E4]"

definition ko_cheombuhayeo :: ustr where
  "ko_cheombuhayeo = [0xCCA8, 0xBD80, 0xD558, 0xC5EC]"

definition ko_songbudeurimnida :: ustr where
  "ko_songbudeurimnida = [0xC1A1, 0xBD80, 0xB4DC, 0xB9BD, 0xB2C8, 0xB2E4]"

definition ko_teugisahang :: ustr where
  "ko_teugisahang = [0xD2B9, 0xC774, 0xC0AC, 0xD56D]"

definition ko_haedang :: ustr where
  "ko_haedang = [0xD574, 0xB2F9]"

definition ko_sahang :: ustr where
  "ko_sahang = [0xC0AC, 0xD56D]"

definition ko_eopseum :: ustr where
  "ko_eopseum = [0xC5C6, 0xC74C]"

definition ko_gamsahamnida :: ustr where
  "ko_gamsahamnida = [0xAC10, 0xC0AC, 0xD569, 0xB2C8, 0xB2E4]"

definition ko_deurim :: ustr where
  "ko_deurim = [0xB4DC, 0xB9BC]"

text \<open>
  The two option lists of the module (line 13 and 14): the five sites Seoul, Daejeon,
  Gwangju, Gumi, Buulgyeong and the seven weekday labels, Monday first.
\<close>

definition LOCATION_OPTIONS :: "ustr list" where
  "LOCATION_OPTIONS =
     [[0xC11C, 0xC6B8], [0xB300, 0xC804], [0xAD11, 0xC8FC], [0xAD6C, 0xBBF8],
      [0xBD80, 0xC6B8, 0xACBD]]"

definition DAY_OF_WEEK_OPTIONS :: "ustr list" where
  "DAY_OF_WEEK_OPTIONS =
     [[0xC6D4], [0xD654], [0xC218], [0xBAA9], [0xAE08], [0xD1A0], [0xC77C]]"

text \<open>
  An \<open>int\<close> inside an f-string is printed in decimal, with a minus sign when negative and
  no padding. (The interpreter's limit on the number of digits of such a conversion is
  outside the model: texts that long are refused by \<open>int()\<close> before they get here.)
\<close>

fun nat_digits :: "nat \<Rightarrow> ustr" where
  "nat_digits n = (if n < 10 then [48 + n] else nat_digits (n div 10) @ [48 + n mod 10])"

declare nat_digits.simps [simp del]

definition str_int :: "int \<Rightarrow> ustr" where
  "str_int i = (if i < 0 then 45 # nat_digits (nat (- i)) else nat_digits (nat i))"

text \<open>\<open>s.split("\n")\<close>: the lines of a text, used to speak about "the n-th line".\<close>

fun split_from :: "ustr \<Rightarrow> ustr \<Rightarrow> ustr list" where
  "split_from cur [] = [cur]"
| "split_from cur (c # cs) =
     (if c = 0x0A then cur # split_from [] cs else split_from (cur @ [c]) cs)"

definition split_lines :: "ustr \<Rightarrow> ustr list" where
  "split_lines s = split_from [] s"

section \<open>EmailComposer: \<open>_build_email\<close>\<close>

definition build_email ::
  "int \<Rightarrow> ustr \<Rightarrow> ustr \<Rightarrow> int \<Rightarrow> int \<Rightarrow> int \<Rightarrow> ustr \<Rightarrow> bool \<Rightarrow> ustr \<Rightarrow> ustr \<times> ustr" where
  "build_email cardinal_number location name nth_day month day day_of_week resend resend_reason =
     (let base_subject =
            ascii ''[SSAFY] '' @ str_int cardinal_number @ ko_gi @ ascii '' '' @ location
            @ ascii '' '' @ ko_silseupkochi @ ascii '' '' @ name @ ascii '' ''
            @ str_int nth_day @ ko_ilcha @ ascii '' Wrap Up''
      in if resend then
           (let title = base_subject @ ascii '' '' @ ko_jaesongbu;
                reason = (if resend_reason \<noteq> [] then resend_reason
                          else ko_cheombu @ ascii '' '' @ ko_oryuro @ ascii '' '' @ ko_inhan
                               @ ascii '' '' @ ko_jaesongbu);
                content =
                  ko_annyeonghasimnikka @ ascii '', '' @ str_int cardinal_number @ ko_gi
                  @ ascii '' '' @ location @ ascii '' '' @ ko_silseupkochi @ ascii '' ''
                  @ name @ ko_imnida @ ascii ''.'' @ newline @ newline
                  @ str_int month @ ko_wol @ ascii '' '' @ str_int day @ ko_il @ ascii ''(''
                  @ day_of_week @ ascii '') '' @ str_int nth_day @ ko_ilcha
                  @ ascii '' Wrap Up'' @ ko_bogoseoreul @ ascii '' '' @ reason @ ascii '' ''
                  @ ko_sayuro @ ascii '' '' @ ko_jaesongbudeurimnida @ ascii ''.''
                  @ newline @ newline
                  @ ko_teugisahang @ newline
                  @ ascii ''- '' @ ko_haedang @ ascii '' '' @ ko_sahang @ ascii '' ''
                  @ ko_eopseum @ ascii ''.'' @ newline @ newline
                  @ ko_gamsahamnida @ ascii ''.'' @ newline
                  @ name @ ascii '' '' @ ko_deurim @ ascii ''.''
            in (title, content))
         else
           (let title = base_subject @ ascii '' '' @ ko_songbu;
                content =
                  ko_annyeonghasimnikka @ ascii '', '' @ str_int cardinal_number @ ko_gi
                  @ ascii '' '' @ location @ ascii '' '' @ ko_silseupkochi @ ascii '' ''
                  @ name @ ko_imnida @ ascii ''.'' @ newline @ newline
                  @ str_int month @ ko_wol @ ascii '' '' @ str_int day @ ko_il @ ascii ''(''
                  @ day_of_week @ ascii '') '' @ str_int nth_day @ ko_ilcha
                  @ ascii '' Wrap Up '' @ ko_bogoseoreul @ ascii '' '' @ ko_cheombuhayeo
                  @ ascii '' '' @ ko_songbudeurimnida @ ascii ''.'' @ newline @ newline
                  @ ko_teugisahang @ newline
                  @ ascii ''- '' @ ko_haedang @ ascii '' '' @ ko_sahang @ ascii '' ''
                  @ ko_eopseum @ ascii ''.'' @ newline @ newline
                  @ ko_gamsahamnida @ ascii ''.'' @ newline
                  @ name @ ascii '' '' @ ko_deurim @ ascii ''.''
            in (title, content)))"

text \<open>
  The literal of line 53, the reason used when none is given ("cheombu oryuro inhan
  jaesongbu": resend because of an attachment error), as the code points of the source.
\<close>

definition default_reason :: ustr where
  "default_reason =
     [0xCCA8, 0xBD80, 0x20, 0xC624, 0xB958, 0xB85C, 0x20, 0xC778, 0xD55C, 0x20, 0xC7AC, 0xC1A1,
      0xBD80]"

text \<open>
  The resend body of lines 54 to 61 cut at the reason: the text before it and the text
  after it. \<open>resend_content\<close> below shows that the body is these two around the reason.
\<close>

definition resend_head :: "int \<Rightarrow> ustr \<Rightarrow> ustr \<Rightarrow> int \<Rightarrow> int \<Rightarrow> int \<Rightarrow> ustr \<Rightarrow> ustr" where
  "resend_head c l n k m dy w =
     (ko_annyeonghasimnikka @ ascii '', '' @ str_int c @ ko_gi @ ascii '' '') @ l
     @ (ascii '' '' @ ko_silseupkochi @ ascii '' '') @ n
     @ (ko_imnida @ ascii ''.'' @ newline @ newline @ str_int m @ ko_wol @ ascii '' ''
        @ str_int dy @ ko_il @ ascii ''('') @ w
     @ (ascii '') '' @ str_int k @ ko_ilcha @ ascii '' Wrap Up'' @ ko_bogoseoreul @ ascii '' '')"

definition resend_tail :: "ustr \<Rightarrow> ustr" where
  "resend_tail n =
     (ascii '' '' @ ko_sayuro @ ascii '' '' @ ko_jaesongbudeurimnida @ ascii ''.''
        @ newline @ newline @ ko_teugisahang @ newline @ ascii ''- '' @ ko_haedang
        @ ascii '' '' @ ko_sahang @ ascii '' '' @ ko_eopseum @ ascii ''.'' @ newline @ newline
        @ ko_gamsahamnida @ ascii ''.'' @ newline) @ n
     @ (ascii '' '' @ ko_deurim @ ascii ''.'')"

section \<open>Validator: \<open>_validate_common_inputs\<close>\<close>

text \<open>
  \<open>str.strip()\<close> removes the characters for which \<open>str.isspace\<close> holds from both ends.
\<close>

definition is_space :: "nat \<Rightarrow> bool" where
  "is_space c \<longleftrightarrow>
     (0x09 \<le> c \<and> c \<le> 0x0D) \<or> (0x1C \<le> c \<and> c \<le> 0x20) \<or> c = 0x85 \<or> c = 0xA0
     \<or> c = 0x1680 \<or> (0x2000 \<le> c \<and> c \<le> 0x200A) \<or> c = 0x2028 \<or> c = 0x2029
     \<or> c = 0x202F \<or> c = 0x205F \<or> c = 0x3000"

definition py_strip :: "ustr \<Rightarrow> ustr" where
  "py_strip s = rev (dropWhile is_space (rev (dropWhile is_space s)))"

text \<open>
  \<open>int(text)\<close> in base 10. White space at both ends is dropped; here the interpreter
  takes the characters of \<open>str.isspace\<close> except the four separators U+001C to U+001F.
  One sign may come first, then digits, with single underscores allowed between digits.
  A digit is any character of the Unicode category Nd, the decimal digits of all
  scripts: each script has ten in a row, and \<open>DIGIT_ZEROS\<close> lists the zero of each
  (Unicode 14, ASCII first). A text with more than 4300 digits is refused (the default
  of \<open>sys.int_max_str_digits\<close>). Everything refused is a \<open>ValueError\<close>, here \<open>None\<close>.
\<close>

definition int_space :: "nat \<Rightarrow> bool" where
  "int_space c \<longleftrightarrow> is_space c \<and> (c < 0x1C \<or> 0x1F < c)"

definition int_strip :: "ustr \<Rightarrow> ustr" where
  "int_strip s = rev (dropWhile int_space (rev (dropWhile int_space s)))"

definition DIGIT_ZEROS :: "nat list" where
  "DIGIT_ZEROS =
     [0x30, 0x660, 0x6F0, 0x7C0, 0x966, 0x9E6, 0xA66, 0xAE6, 0xB66, 0xBE6, 0xC66, 0xCE6,
      0xD66, 0xDE6, 0xE50, 0xED0, 0xF20, 0x1040, 0x1090, 0x17E0, 0x1810, 0x1946, 0x19D0,
      0x1A80, 0x1A90, 0x1B50, 0x1BB0, 0x1C40, 0x1C50, 0xA620, 0xA8D0, 0xA900, 0xA9D0,
      0xA9F0, 0xAA50, 0xABF0, 0xFF10, 0x104A0, 0x10D30, 0x11066, 0x110F0, 0x11136,
      0x111D0, 0x112F0, 0x11450, 0x114D0, 0x11650, 0x116C0, 0x11730, 0x118E0, 0x11950,
      0x11C50, 0x11D50, 0x11DA0, 0x16A60, 0x16AC0, 0x16B50, 0x1D7CE, 0x1D7D8, 0x1D7E2,
      0x1D7EC, 0x1D7F6, 0x1E140, 0x1E2F0, 0x1E950, 0x1FBF0]"

definition digit_value :: "nat \<Rightarrow> nat option" where
  "digit_value c =
     map_option (\<lambda>z. c - z) (find (\<lambda>z. z \<le> c \<and> c \<le> z + 9) DIGIT_ZEROS)"

fun parse_digits :: "nat \<Rightarrow> nat \<Rightarrow> bool \<Rightarrow> ustr \<Rightarrow> nat option" where
  "parse_digits acc digits after_digit [] =
     (if after_digit \<and> digits \<le> 4300 then Some acc else None)"
| "parse_digits acc digits after_digit (c # cs) =
     (case digit_value c of
        Some v \<Rightarrow> parse_digits (10 * acc + v) (Suc digits) True cs
      | None \<Rightarrow>
          if c = 95 \<and> after_digit then parse_digits acc digits False cs else None)"

definition py_int :: "ustr \<Rightarrow> int option" where
  "py_int s =
     (case int_strip s of
        [] \<Rightarrow> None
      | c # cs \<Rightarrow>
          if c = 45 then map_option (\<lambda>n. - int n) (parse_digits 0 0 False cs)
          else if c = 43 then map_option int (parse_digits 0 0 False cs)
          else map_option int (parse_digits 0 0 False (c # cs)))"

text \<open>
  The form: the Tk variables that the callbacks of \<open>main\<close> read, and the two result
  boxes that \<open>on_generate\<close> writes.
\<close>

record form =
  cardinal_var :: ustr
  location_var :: ustr
  name_var :: ustr
  nth_day_var :: ustr
  month_var :: ustr
  day_var :: ustr
  day_of_week_var :: ustr
  resend_var :: bool
  resend_reason_var :: ustr
  title_text :: ustr
  content_text :: ustr

text \<open>
  The three ways \<open>_validate_common_inputs\<close> returns \<open>None\<close>, named after the error box
  it shows: "enter the name", "check the number fields", "choose the weekday".
\<close>

datatype validation_error = EmptyName | NotANumber | InvalidWeekday

definition validate_common_inputs ::
  "form \<Rightarrow> validation_error + (int \<times> int \<times> int \<times> int \<times> ustr \<times> ustr)" where
  "validate_common_inputs f =
     (let name = py_strip (name_var f) in
      if name = [] then Inl EmptyName
      else
        (case py_int (cardinal_var f) of None \<Rightarrow> Inl NotANumber | Some cardinal \<Rightarrow>
        (case py_int (nth_day_var f) of None \<Rightarrow> Inl NotANumber | Some nth' \<Rightarrow>
        (case py_int (month_var f) of None \<Rightarrow> Inl NotANumber | Some month \<Rightarrow>
        (case py_int (day_var f) of None \<Rightarrow> Inl NotANumber | Some day \<Rightarrow>
           (let dow = py_strip (day_of_week_var f) in
            if dow \<notin> set DAY_OF_WEEK_OPTIONS then Inl InvalidWeekday
            else Inr (cardinal, nth', month, day, dow, name)))))))"

text \<open>What a callback shows to the user in a message box.\<close>

datatype dialog = ShowError validation_error | ShowInfo_saved

definition on_generate :: "form \<Rightarrow> form \<times> dialog option" where
  "on_generate f =
     (case validate_common_inputs f of
        Inl e \<Rightarrow> (f, Some (ShowError e))
      | Inr (cardinal, nth', month, day, dow, name) \<Rightarrow>
          (let (title, content) =
                 build_email cardinal (location_var f) name nth' month day dow (resend_var f)
                   (py_strip (resend_reason_var f))
           in (f\<lparr>title_text := title, content_text := content\<rparr>, None)))"

section \<open>SettingsStore: \<open>_init_db\<close>, \<open>_save_options\<close>, \<open>_load_latest_options\<close>\<close>

text \<open>
  The database file is either without the table \<open>options\<close> (\<open>None\<close>; a file that does
  not exist yet is such a database, \<open>sqlite3.connect\<close> creates it) or holds the table, the
  list of its rows in rowid order. The column \<open>id\<close> is written by the engine (always
  increasing) and read by nobody, so the position in the list stands for it. A row has
  the nine columns the program writes and \<open>saved_at\<close>, which the engine fills with
  \<open>CURRENT_TIMESTAMP\<close>, a time in whole seconds. The clock is not part of the program, so
  its reading at the moment of the insert, in milliseconds, is an argument \<open>now\<close> of
  \<open>save_options\<close>, and \<open>saved_at\<close> is that reading cut to whole seconds.
\<close>

record options =
  col_cardinal :: int
  col_location :: ustr
  col_name :: ustr
  col_nth_day :: int
  col_month :: int
  col_day :: int
  col_day_of_week :: ustr
  col_resend :: int
  col_resend_reason :: "ustr option"

record row = options +
  col_saved_at :: nat

type_synonym db = "row list option"

text \<open>
  \<open>OperationalError\<close>: the statement names a table that does not exist.
  \<open>OverflowError\<close>: a Python \<open>int\<close> bound to a statement does not fit the 64-bit signed
  integer of the engine ("Python int too large to convert to SQLite INTEGER").
  \<open>UnicodeEncodeError\<close>: a text bound to a statement holds a surrogate code point
  (U+D800 to U+DFFF), which has no UTF-8 encoding.
  All leave the \<open>with\<close> block by an exception, which rolls the transaction back.
  Failures of the disk or the file system, and the limit of the engine on the size of
  a row (10^9 bytes), are outside the model.
\<close>

datatype store_error = OperationalError | OverflowError | UnicodeEncodeError

definition fits_int64 :: "int \<Rightarrow> bool" where
  "fits_int64 i \<longleftrightarrow> - (2 ^ 63) \<le> i \<and> i < 2 ^ 63"

definition is_surrogate :: "nat \<Rightarrow> bool" where
  "is_surrogate c \<longleftrightarrow> 0xD800 \<le> c \<and> c \<le> 0xDFFF"

fun encodable :: "ustr \<Rightarrow> bool" where
  "encodable [] = True"
| "encodable (c # cs) = (if is_surrogate c then False else encodable cs)"

text \<open>
  The values of a statement are bound one after the other, in the order of the tuple;
  the first that cannot be bound raises.
\<close>

datatype param = PInt int | PText ustr

fun bind_params :: "param list \<Rightarrow> store_error option" where
  "bind_params [] = None"
| "bind_params (PInt i # ps) = (if fits_int64 i then bind_params ps else Some OverflowError)"
| "bind_params (PText t # ps) =
     (if encodable t then bind_params ps else Some UnicodeEncodeError)"

definition init_db :: "db \<Rightarrow> db" where
  "init_db d = (case d of None \<Rightarrow> Some [] | Some rows \<Rightarrow> Some rows)"

text \<open>
  The row that the INSERT statement of \<open>_save_options\<close> writes: the nine bound values,
  \<open>int(resend)\<close> among them, and the default of the column \<open>saved_at\<close>.
\<close>

definition inserted_row ::
  "int \<Rightarrow> ustr \<Rightarrow> ustr \<Rightarrow> int \<Rightarrow> int \<Rightarrow> int \<Rightarrow> ustr \<Rightarrow> bool \<Rightarrow> ustr \<Rightarrow> nat \<Rightarrow> row" where
  "inserted_row cardinal_number location name nth_day month day day_of_week resend
     resend_reason now =
     \<lparr>col_cardinal = cardinal_number, col_location = location, col_name = name,
      col_nth_day = nth_day, col_month = month, col_day = day,
      col_day_of_week = day_of_week,
      col_resend = (if resend then 1 else 0),
      col_resend_reason = Some resend_reason, col_saved_at = now div 1000\<rparr>"

definition save_options ::
  "int \<Rightarrow> ustr \<Rightarrow> ustr \<Rightarrow> int \<Rightarrow> int \<Rightarrow> int \<Rightarrow> ustr \<Rightarrow> bool \<Rightarrow> ustr \<Rightarrow> nat \<Rightarrow> db
     \<Rightarrow> store_error + db" where
  "save_options cardinal_number location name nth_day month day day_of_week resend
     resend_reason now d =
     (case d of
        None \<Rightarrow> Inl OperationalError
      | Some rows \<Rightarrow>
          (case bind_params
                  [PInt cardinal_number, PText location, PText name, PInt nth_day,
                   PInt month, PInt day, PText day_of_week,
                   PInt (if resend then 1 else 0), PText resend_reason] of
             Some err \<Rightarrow> Inl err
           | None \<Rightarrow>
               Inr (Some (rows @
                 [inserted_row cardinal_number location name nth_day month day day_of_week
                    resend resend_reason now]))))"

text \<open>
  \<open>ORDER BY saved_at DESC\<close>: a stable sort of the rows, scanned in rowid order, on the
  key \<open>saved_at\<close>, largest first (\<open>sort_key\<close> is stable). The SQL standard leaves the
  order of rows with equal keys open; the engine in use keeps them in scan order, so of
  several rows with the largest \<open>saved_at\<close> the oldest comes first.
\<close>

definition order_by_saved_at_desc :: "row list \<Rightarrow> row list" where
  "order_by_saved_at_desc rows = sort_key (\<lambda>r. - int (col_saved_at r)) rows"

definition selected_columns :: "row \<Rightarrow> options" where
  "selected_columns r =
     \<lparr>col_cardinal = col_cardinal r, col_location = col_location r, col_name = col_name r,
      col_nth_day = col_nth_day r, col_month = col_month r, col_day = col_day r,
      col_day_of_week = col_day_of_week r, col_resend = col_resend r,
      col_resend_reason = col_resend_reason r\<rparr>"

definition load_latest_options :: "db \<Rightarrow> store_error + options option" where
  "load_latest_options d =
     (case d of
        None \<Rightarrow> Inl OperationalError
      | Some rows \<Rightarrow>
          (case take 1 (order_by_saved_at_desc rows) of
             [] \<Rightarrow> Inr None
           | r # _ \<Rightarrow> Inr (Some (selected_columns r))))"

definition on_save_options :: "form \<Rightarrow> nat \<Rightarrow> db \<Rightarrow> store_error + (db \<times> dialog)" where
  "on_save_options f now d =
     (case validate_common_inputs f of
        Inl e \<Rightarrow> Inr (d, ShowError e)
      | Inr (cardinal, nth', month, day, dow, name) \<Rightarrow>
          (case save_options cardinal (location_var f) name nth' month day dow (resend_var f)
                  (py_strip (resend_reason_var f)) now d of
             Inl err \<Rightarrow> Inl err
           | Inr d' \<Rightarrow> Inr (d', ShowInfo_saved)))"

text \<open>
  A history of the store: calls of \<open>_init_db\<close> and \<open>_save_options\<close> in some order. A
  save that raises leaves the database as it was.
\<close>

datatype store_op =
  Initialize
| Save int ustr ustr int int int ustr bool ustr nat

fun exec_op :: "store_op \<Rightarrow> db \<Rightarrow> db" where
  "exec_op Initialize d = init_db d"
| "exec_op (Save c l n k m dy w rs rr now) d =
     (case save_options c l n k m dy w rs rr now d of Inl _ \<Rightarrow> d | Inr d' \<Rightarrow> d')"

definition run_ops :: "store_op list \<Rightarrow> db \<Rightarrow> db" where
  "run_ops ops d = fold exec_op ops d"

definition rows_of :: "db \<Rightarrow> row list" where
  "rows_of d = (case d of None \<Rightarrow> [] | Some rows \<Rightarrow> rows)"

section \<open>Example inputs\<close>

text \<open>
  States of the form: one whose name is two spaces and whose other fields are
  invalid as well, and one that is valid in every checked field and whose location is
  Busan, which is not one of the five sites.
\<close>

definition blank_name_form :: form where
  "blank_name_form =
     \<lparr>cardinal_var = ascii ''x'', location_var = [0xC11C, 0xC6B8], name_var = ascii ''  '',
      nth_day_var = [], month_var = [], day_var = [], day_of_week_var = ascii ''Sunday'',
      resend_var = False, resend_reason_var = [], title_text = ascii ''old title'',
      content_text = ascii ''old body''\<rparr>"

definition busan_form :: form where
  "busan_form =
     \<lparr>cardinal_var = ascii ''13'', location_var = [0xBD80, 0xC0B0],
      name_var = [0xD64D, 0xAE38, 0xB3D9], nth_day_var = ascii ''5'', month_var = ascii ''3'',
      day_var = ascii ''14'', day_of_week_var = [0xBAA9], resend_var = False,
      resend_reason_var = [], title_text = [], content_text = []\<rparr>"

text \<open>
  A form that is valid in every checked field and whose cohort number is \<open>2 ^ 63\<close>, one
  more than the largest 64-bit signed integer.
\<close>

definition huge_cohort_form :: form where
  "huge_cohort_form =
     \<lparr>cardinal_var = ascii ''9223372036854775808'', location_var = [0xC11C, 0xC6B8],
      name_var = [0xD64D, 0xAE38, 0xB3D9], nth_day_var = ascii ''5'', month_var = ascii ''3'',
      day_var = ascii ''14'', day_of_week_var = [0xBAA9], resend_var = False,
      resend_reason_var = [], title_text = [], content_text = []\<rparr>"

text \<open>
  A valid form whose name is one surrogate code point, as a text box can deliver it.
\<close>

definition surrogate_name_form :: form where
  "surrogate_name_form =
     \<lparr>cardinal_var = ascii ''13'', location_var = [0xC11C, 0xC6B8], name_var = [0xD800],
      nth_day_var = ascii ''5'', month_var = ascii ''3'', day_var = ascii ''14'',
      day_of_week_var = [0xBAA9], resend_var = False, resend_reason_var = [],
      title_text = [], content_text = []\<rparr>"

text \<open>
  A valid form with resend set and a reason that is a space and a tab.
\<close>

definition blank_reason_form :: form where
  "blank_reason_form =
     \<lparr>cardinal_var = ascii ''13'', location_var = [0xC11C, 0xC6B8],
      name_var = [0xD64D, 0xAE38, 0xB3D9], nth_day_var = ascii ''5'', month_var = ascii ''3'',
      day_var = ascii ''14'', day_of_week_var = [0xBAA9], resend_var = True,
      resend_reason_var = [0x20, 0x09], title_text = [], content_text = []\<rparr>"

section \<open>Facts about the text functions\<close>

lemmas ko_defs =
  ko_gi_def ko_silseupkochi_def ko_ilcha_def ko_jaesongbu_def ko_songbu_def ko_cheombu_def
  ko_oryuro_def ko_inhan_def ko_annyeonghasimnikka_def ko_imnida_def ko_wol_def ko_il_def
  ko_bogoseoreul_def ko_sayuro_def ko_jaesongbudeurimnida_def ko_cheombuhayeo_def
  ko_songbudeurimnida_def ko_teugisahang_def ko_haedang_def ko_sahang_def ko_eopseum_def
  ko_gamsahamnida_def ko_deurim_def newline_def ascii_def

lemma str_int_13: "str_int 13 = [0x31, 0x33]"
  by (simp add: str_int_def nat_digits.simps)

lemma str_int_14: "str_int 14 = [0x31, 0x34]"
  by (simp add: str_int_def nat_digits.simps)

lemma str_int_5: "str_int 5 = [0x35]"
  by (simp add: str_int_def nat_digits.simps)

lemma str_int_3: "str_int 3 = [0x33]"
  by (simp add: str_int_def nat_digits.simps)

lemmas str_int_examples = str_int_13 str_int_14 str_int_5 str_int_3

lemmas py_int_defs =
  py_int_def int_strip_def int_space_def is_space_def digit_value_def DIGIT_ZEROS_def

lemmas save_defs = save_options_def fits_int64_def is_surrogate_def

section \<open>C1: the end-to-end example\<close>

text \<open>
  C1, as stated: for cohort 13, site Seoul, name Hong Gildong, day 5, 14 March, Thursday,
  no resend, the title is "[SSAFY] 13gi Seoul silseupkochi Hong Gildong 5ilcha Wrap Up
  songbu" and the second line of the body is the sentence "3wol 14il(mok) 5ilcha Wrap Up
  bogoseoreul cheombuhayeo songbudeurimnida.". The second half fails: the template ends
  the greeting with two newlines, so the second line of the body (index 1 of
  \<open>body.split("\n")\<close>) is empty and differs from that sentence.
\<close>

theorem build_email_example_second_line_differs:
  "split_lines
     (snd (build_email 13 [0xC11C, 0xC6B8] [0xD64D, 0xAE38, 0xB3D9] 5 3 14 [0xBAA9] False [])) ! 1
   \<noteq> [0x33, 0xC6D4, 0x20, 0x31, 0x34, 0xC77C, 0x28, 0xBAA9, 0x29, 0x20, 0x35, 0xC77C, 0xCC28,
       0x20, 0x57, 0x72, 0x61, 0x70, 0x20, 0x55, 0x70, 0x20, 0xBCF4, 0xACE0, 0xC11C, 0xB97C,
       0x20, 0xCCA8, 0xBD80, 0xD558, 0xC5EC, 0x20, 0xC1A1, 0xBD80, 0xB4DC, 0xB9BD, 0xB2C8,
       0xB2E4, 0x2E]"
  by (simp add: build_email_def str_int_examples ko_defs split_lines_def)

text \<open>
  C1, amended: for that input the title is exactly the one of the claim, and the body
  starts with three lines: the greeting, an empty line, and then, as the third line (the
  second line that is not empty), exactly the sentence of the claim.
\<close>

theorem build_email_example:
  "fst (build_email 13 [0xC11C, 0xC6B8] [0xD64D, 0xAE38, 0xB3D9] 5 3 14 [0xBAA9] False []) =
     [0x5B, 0x53, 0x53, 0x41, 0x46, 0x59, 0x5D, 0x20, 0x31, 0x33, 0xAE30, 0x20, 0xC11C, 0xC6B8,
      0x20, 0xC2E4, 0xC2B5, 0xCF54, 0xCE58, 0x20, 0xD64D, 0xAE38, 0xB3D9, 0x20, 0x35, 0xC77C,
      0xCC28, 0x20, 0x57, 0x72, 0x61, 0x70, 0x20, 0x55, 0x70, 0x20, 0xC1A1, 0xBD80]
   \<and> take 3 (split_lines
         (snd (build_email 13 [0xC11C, 0xC6B8] [0xD64D, 0xAE38, 0xB3D9] 5 3 14 [0xBAA9]
                False []))) =
     [[0xC548, 0xB155, 0xD558, 0xC2ED, 0xB2C8, 0xAE4C, 0x2C, 0x20, 0x31, 0x33, 0xAE30, 0x20,
       0xC11C, 0xC6B8, 0x20, 0xC2E4, 0xC2B5, 0xCF54, 0xCE58, 0x20, 0xD64D, 0xAE38, 0xB3D9,
       0xC785, 0xB2C8, 0xB2E4, 0x2E],
      [],
      [0x33, 0xC6D4, 0x20, 0x31, 0x34, 0xC77C, 0x28, 0xBAA9, 0x29, 0x20, 0x35, 0xC77C, 0xCC28,
       0x20, 0x57, 0x72, 0x61, 0x70, 0x20, 0x55, 0x70, 0x20, 0xBCF4, 0xACE0, 0xC11C, 0xB97C,
       0x20, 0xCCA8, 0xBD80, 0xD558, 0xC5EC, 0x20, 0xC1A1, 0xBD80, 0xB4DC, 0xB9BD, 0xB2C8,
       0xB2E4, 0x2E]]"
  by (simp add: build_email_def str_int_examples ko_defs split_lines_def)

section \<open>C8: loading from a new store\<close>

text \<open>
  C8: on a store that has just been initialised and to which nothing was ever saved,
  \<open>_load_latest_options\<close> returns \<open>None\<close>, the "no record" result, as a normal return
  value (\<open>Inr\<close>) and not as an exception.
\<close>

theorem load_latest_fresh_store:
  "load_latest_options (init_db None) = Inr None"
  by (simp add: load_latest_options_def init_db_def order_by_saved_at_desc_def)

section \<open>Facts about stripping and about the resend body\<close>

text \<open>
  A text is stripped to nothing exactly when it is blank. The resend body is the head,
  the reason and the tail; the default reason text can occur in it only inside one of
  the texts that come from the user, because its first character occurs nowhere in the
  fixed parts and no end of it continues into the fixed text after a field.
\<close>

lemma py_strip_Nil_iff: "py_strip s = [] \<longleftrightarrow> (\<forall>c\<in>set s. is_space c)"
proof
  assume "py_strip s = []"
  then have all: "\<forall>x\<in>set (dropWhile is_space s). is_space x"
    by (simp add: py_strip_def dropWhile_eq_Nil_conv)
  have "dropWhile is_space s = []"
  proof (rule ccontr)
    assume ne: "dropWhile is_space s \<noteq> []"
    then have "\<not> is_space (hd (dropWhile is_space s))" by (rule hd_dropWhile)
    moreover have "hd (dropWhile is_space s) \<in> set (dropWhile is_space s)" using ne by simp
    ultimately show False using all by blast
  qed
  then show "\<forall>c\<in>set s. is_space c" by (simp add: dropWhile_eq_Nil_conv)
next
  assume "\<forall>c\<in>set s. is_space c"
  then have e: "dropWhile is_space s = []" by (simp add: dropWhile_eq_Nil_conv)
  show "py_strip s = []" unfolding py_strip_def e by simp
qed

lemma nat_digits_range: "x \<in> set (nat_digits n) \<Longrightarrow> 48 \<le> x \<and> x \<le> 57"
proof (induction n arbitrary: x rule: nat_digits.induct)
  case (1 n)
  show ?case
  proof (cases "n < 10")
    case True
    with "1.prems" show ?thesis by (simp add: nat_digits.simps)
  next
    case False
    with "1.prems" have "x \<in> set (nat_digits (n div 10)) \<or> x = 48 + n mod 10"
      by (subst (asm) nat_digits.simps) auto
    then show ?thesis
    proof
      assume "x \<in> set (nat_digits (n div 10))"
      with False "1.IH" show ?thesis by blast
    next
      assume "x = 48 + n mod 10"
      moreover have "n mod 10 < 10" by simp
      ultimately show ?thesis by linarith
    qed
  qed
qed

lemma str_int_chars: "x \<in> set (str_int i) \<Longrightarrow> x \<le> 57"
  by (auto simp: str_int_def dest: nat_digits_range split: if_splits)

lemma skip_clean:
  assumes "c \<notin> set xs" "\<not> sublist (c # ds) rest"
  shows "\<not> sublist (c # ds) (xs @ rest)"
  using assms by (induction xs) (auto simp: sublist_Cons_right)

lemma field_step:
  assumes "\<not> sublist D F" and "\<not> sublist D post"
    and "\<forall>xs2\<in>set (suffixes D). xs2 \<noteq> [] \<and> xs2 \<noteq> D \<longrightarrow> \<not> prefix xs2 post"
  shows "\<not> sublist D (F @ post)"
proof
  assume "sublist D (F @ post)"
  with assms(1,2) obtain xs1 xs2 where s: "D = xs1 @ xs2" "suffix xs1 F" "prefix xs2 post"
    by (auto simp: sublist_append)
  have "xs2 \<noteq> []" using s assms(1) by (auto simp: sublist_altdef)
  moreover have "xs2 \<noteq> D" using s assms(2) by auto
  moreover have "xs2 \<in> set (suffixes D)" using s(1) by (simp add: in_set_suffixes suffix_def)
  ultimately show False using assms(3) s(3) by blast
qed

lemma resend_content:
  "snd (build_email c l n k m dy w True rr) =
     resend_head c l n k m dy w @ (if rr = [] then default_reason else rr) @ resend_tail n"
  by (simp add: build_email_def resend_head_def resend_tail_def default_reason_def
      ko_cheombu_def ko_oryuro_def ko_inhan_def ko_jaesongbu_def ascii_def)

lemma default_reason_clean_pieces:
  "0xCCA8 \<notin> set (ko_annyeonghasimnikka @ ascii '', '' @ str_int c @ ko_gi @ ascii '' '')"
  "0xCCA8 \<notin> set (ascii '' '' @ ko_silseupkochi @ ascii '' '')"
  "0xCCA8 \<notin> set (ko_imnida @ ascii ''.'' @ newline @ newline @ str_int m @ ko_wol @ ascii '' ''
        @ str_int dy @ ko_il @ ascii ''('')"
  "0xCCA8 \<notin> set (ascii '') '' @ str_int k @ ko_ilcha @ ascii '' Wrap Up'' @ ko_bogoseoreul @ ascii '' '')"
  "0xCCA8 \<notin> set (ascii '' '' @ ko_sayuro @ ascii '' '' @ ko_jaesongbudeurimnida @ ascii ''.''
        @ newline @ newline @ ko_teugisahang @ newline @ ascii ''- '' @ ko_haedang
        @ ascii '' '' @ ko_sahang @ ascii '' '' @ ko_eopseum @ ascii ''.'' @ newline @ newline
        @ ko_gamsahamnida @ ascii ''.'' @ newline)"
  "0xCCA8 \<notin> set (ascii '' '' @ ko_deurim @ ascii ''.'')"
  by (auto simp: ko_defs dest: str_int_chars)

lemma skip_clean_hd:
  assumes "\<not> sublist D rest" and "D \<noteq> []" and "hd D \<notin> set xs"
  shows "\<not> sublist D (xs @ rest)"
  using assms skip_clean [of "hd D" xs "tl D" rest] by simp

lemma resend_no_default:
  assumes l: "\<not> sublist default_reason l" and n: "\<not> sublist default_reason n"
    and w: "\<not> sublist default_reason w" and rr: "\<not> sublist default_reason rr"
  shows "\<not> sublist default_reason (resend_head c l n k m dy w @ rr @ resend_tail n)"
proof -
  let ?D = default_reason
  have hd: "?D \<noteq> []" "hd ?D = 0xCCA8" by (simp_all add: default_reason_def)
  have "\<not> sublist ?D (ascii '' '' @ ko_deurim @ ascii ''.'')"
    by (simp add: default_reason_def ko_defs sublist_Cons_right)
  then have "\<not> sublist ?D (n @ ascii '' '' @ ko_deurim @ ascii ''.'')"
    by (rule field_step [OF n]) (simp add: default_reason_def ko_defs)
  then have "\<not> sublist ?D (resend_tail n)"
    unfolding resend_tail_def
    by (rule skip_clean_hd) (simp_all only: hd default_reason_clean_pieces not_False_eq_True)
  then have "\<not> sublist ?D (rr @ resend_tail n)"
    by (rule field_step [OF rr]) (simp add: default_reason_def ko_defs resend_tail_def)
  then have "\<not> sublist ?D ((ascii '') '' @ str_int k @ ko_ilcha @ ascii '' Wrap Up''
      @ ko_bogoseoreul @ ascii '' '') @ rr @ resend_tail n)"
    by (rule skip_clean_hd) (simp_all only: hd default_reason_clean_pieces not_False_eq_True)
  then have "\<not> sublist ?D (w @ (ascii '') '' @ str_int k @ ko_ilcha @ ascii '' Wrap Up''
      @ ko_bogoseoreul @ ascii '' '') @ rr @ resend_tail n)"
    by (rule field_step [OF w]) (simp add: default_reason_def ko_defs)
  then have "\<not> sublist ?D ((ko_imnida @ ascii ''.'' @ newline @ newline @ str_int m @ ko_wol
      @ ascii '' '' @ str_int dy @ ko_il @ ascii ''('') @ w
      @ (ascii '') '' @ str_int k @ ko_ilcha @ ascii '' Wrap Up''
      @ ko_bogoseoreul @ ascii '' '') @ rr @ resend_tail n)"
    by (rule skip_clean_hd) (simp_all only: hd default_reason_clean_pieces not_False_eq_True)
  then have "\<not> sublist ?D (n @ (ko_imnida @ ascii ''.'' @ newline @ newline @ str_int m @ ko_wol
      @ ascii '' '' @ str_int dy @ ko_il @ ascii ''('') @ w
      @ (ascii '') '' @ str_int k @ ko_ilcha @ ascii '' Wrap Up''
      @ ko_bogoseoreul @ ascii '' '') @ rr @ resend_tail n)"
    by (rule field_step [OF n]) (simp add: default_reason_def ko_defs)
  then have "\<not> sublist ?D ((ascii '' '' @ ko_silseupkochi @ ascii '' '') @ n
      @ (ko_imnida @ ascii ''.'' @ newline @ newline @ str_int m @ ko_wol
      @ ascii '' '' @ str_int dy @ ko_il @ ascii ''('') @ w
      @ (ascii '') '' @ str_int k @ ko_ilcha @ ascii '' Wrap Up''
      @ ko_bogoseoreul @ ascii '' '') @ rr @ resend_tail n)"
    by (rule skip_clean_hd) (simp_all only: hd default_reason_clean_pieces not_False_eq_True)
  then have "\<not> sublist ?D (l @ (ascii '' '' @ ko_silseupkochi @ ascii '' '') @ n
      @ (ko_imnida @ ascii ''.'' @ newline @ newline @ str_int m @ ko_wol
      @ ascii '' '' @ str_int dy @ ko_il @ ascii ''('') @ w
      @ (ascii '') '' @ str_int k @ ko_ilcha @ ascii '' Wrap Up''
      @ ko_bogoseoreul @ ascii '' '') @ rr @ resend_tail n)"
    by (rule field_step [OF l]) (simp add: default_reason_def ko_defs)
  then have "\<not> sublist ?D ((ko_annyeonghasimnikka @ ascii '', '' @ str_int c @ ko_gi
      @ ascii '' '') @ l @ (ascii '' '' @ ko_silseupkochi @ ascii '' '') @ n
      @ (ko_imnida @ ascii ''.'' @ newline @ newline @ str_int m @ ko_wol
      @ ascii '' '' @ str_int dy @ ko_il @ ascii ''('') @ w
      @ (ascii '') '' @ str_int k @ ko_ilcha @ ascii '' Wrap Up''
      @ ko_bogoseoreul @ ascii '' '') @ rr @ resend_tail n)"
    by (rule skip_clean_hd) (simp_all only: hd default_reason_clean_pieces not_False_eq_True)
  then show ?thesis by (simp add: resend_head_def)
qed


lemma sublist_trans: "sublist xs ys \<Longrightarrow> sublist ys zs \<Longrightarrow> sublist xs zs"
proof -
  assume "sublist xs ys" and "sublist ys zs"
  then obtain p s p' s' where "ys = p @ xs @ s" and "zs = p' @ ys @ s'"
    by (auto simp: sublist_def)
  then have "zs = (p' @ p) @ xs @ (s @ s')" by simp
  then show ?thesis unfolding sublist_def by blast
qed

lemma fields_in_resend_body:
  "sublist l (resend_head c l n k m dy w @ rr @ resend_tail n)"
  "sublist n (resend_head c l n k m dy w @ rr @ resend_tail n)"
  "sublist w (resend_head c l n k m dy w @ rr @ resend_tail n)"
  "sublist rr (resend_head c l n k m dy w @ rr @ resend_tail n)"
proof -
  show "sublist l (resend_head c l n k m dy w @ rr @ resend_tail n)"
    unfolding resend_head_def sublist_def
    by (rule exI [of _ "ko_annyeonghasimnikka @ ascii '', '' @ str_int c @ ko_gi @ ascii '' ''"],
        rule exI) simp
  show "sublist n (resend_head c l n k m dy w @ rr @ resend_tail n)"
    unfolding resend_head_def sublist_def
    by (rule exI [of _ "(ko_annyeonghasimnikka @ ascii '', '' @ str_int c @ ko_gi @ ascii '' '')
          @ l @ (ascii '' '' @ ko_silseupkochi @ ascii '' '')"], rule exI) simp
  show "sublist w (resend_head c l n k m dy w @ rr @ resend_tail n)"
    unfolding resend_head_def sublist_def
    by (rule exI [of _ "(ko_annyeonghasimnikka @ ascii '', '' @ str_int c @ ko_gi @ ascii '' '')
          @ l @ (ascii '' '' @ ko_silseupkochi @ ascii '' '') @ n
          @ (ko_imnida @ ascii ''.'' @ newline @ newline @ str_int m @ ko_wol @ ascii '' ''
             @ str_int dy @ ko_il @ ascii ''('')"], rule exI) simp
  show "sublist rr (resend_head c l n k m dy w @ rr @ resend_tail n)"
    by simp
qed

section \<open>C4: the default reason\<close>

text \<open>
  C4, as stated: when resend is set and the resend reason is blank, the body that
  \<open>_build_email\<close> produces contains the default reason text. It fails for a reason that
  is blank without being empty: line 53 replaces the empty text only, so a reason of one
  space is kept as it is and the body has no default reason.
\<close>

theorem one_space_reason_kept:
  "is_space 0x20
   \<and> \<not> sublist default_reason
         (snd (build_email 13 [0xC11C, 0xC6B8] [0xD64D, 0xAE38, 0xB3D9] 5 3 14 [0xBAA9] True
                [0x20]))"
proof -
  have "\<not> sublist default_reason
      (resend_head 13 [0xC11C, 0xC6B8] [0xD64D, 0xAE38, 0xB3D9] 5 3 14 [0xBAA9] @ [0x20]
       @ resend_tail [0xD64D, 0xAE38, 0xB3D9])"
    by (rule resend_no_default) (simp_all add: default_reason_def sublist_Cons_right)
  then show ?thesis by (simp add: resend_content is_space_def)
qed

lemma on_generate_content:
  assumes "validate_common_inputs f = Inr (c, k, m, dy, w, n)"
  shows "content_text (fst (on_generate f)) =
           snd (build_email c (location_var f) n k m dy w (resend_var f)
                  (py_strip (resend_reason_var f)))"
  using assms by (simp add: on_generate_def split_beta)

text \<open>
  C4, amended: when resend is set and the resend reason is empty, the body that
  \<open>_build_email\<close> produces contains the default reason text. The form strips the reason
  before it calls \<open>_build_email\<close>, so for every input that the Validator accepts, with
  resend set and a reason that is blank (empty or white space only), the body that
  \<open>on_generate\<close> shows contains the default reason text.
\<close>

theorem default_reason_for_empty_reason:
  assumes "validate_common_inputs f = Inr (c', k', m', dy', w', n')"
    and "resend_var f"
    and "\<forall>x\<in>set (resend_reason_var f). is_space x"
  shows "sublist default_reason (snd (build_email c l n k m dy w True []))
    \<and> sublist default_reason (content_text (fst (on_generate f)))"
proof -
  have "py_strip (resend_reason_var f) = []"
    using assms(3) by (simp add: py_strip_Nil_iff)
  then have "content_text (fst (on_generate f)) =
      snd (build_email c' (location_var f) n' k' m' dy' w' True [])"
    using on_generate_content [OF assms(1)] assms(2) by simp
  then show ?thesis by (simp add: resend_content)
qed

theorem default_reason_for_empty_reason_witness:
  "validate_common_inputs blank_reason_form =
     Inr (13, 5, 3, 14, [0xBAA9], [0xD64D, 0xAE38, 0xB3D9])
   \<and> resend_var blank_reason_form
   \<and> resend_reason_var blank_reason_form = [0x20, 0x09]
   \<and> is_space 0x20 \<and> is_space 0x09
   \<and> sublist default_reason (content_text (fst (on_generate blank_reason_form)))"
proof -
  have v: "validate_common_inputs blank_reason_form =
      Inr (13, 5, 3, 14, [0xBAA9], [0xD64D, 0xAE38, 0xB3D9])"
    by (simp add: validate_common_inputs_def blank_reason_form_def py_int_defs py_strip_def
        ascii_def DAY_OF_WEEK_OPTIONS_def)
  have r: "resend_var blank_reason_form" by (simp add: blank_reason_form_def)
  have b: "\<forall>x\<in>set (resend_reason_var blank_reason_form). is_space x"
    by (simp add: blank_reason_form_def is_space_def)
  show ?thesis
    using v r default_reason_for_empty_reason [OF v r b]
    by (simp add: blank_reason_form_def is_space_def)
qed

section \<open>C5: a reason given by the user\<close>

text \<open>
  C5, as stated: with resend set and a reason R that is not blank, the body contains R
  and does not contain the default reason text. The second half fails when the user
  types the default reason text itself as the reason: it is not blank, and the body
  contains it.
\<close>

theorem default_reason_typed_in_counterexample:
  "py_strip default_reason = default_reason \<and> default_reason \<noteq> []
   \<and> sublist default_reason
       (snd (build_email 13 [0xC11C, 0xC6B8] [0xD64D, 0xAE38, 0xB3D9] 5 3 14 [0xBAA9] True
          (py_strip default_reason)))"
proof -
  have "py_strip default_reason = default_reason"
    by (simp add: py_strip_def default_reason_def is_space_def)
  moreover have "default_reason \<noteq> []" by (simp add: default_reason_def)
  ultimately show ?thesis by (simp add: resend_content)
qed

text \<open>
  C5, amended: with resend set and a reason R that is not empty, the body contains R as
  it is, and the program adds no default reason: the body contains the default reason
  text exactly when that text already occurs inside one of the texts the user supplied
  (location, name, weekday or R).
\<close>

theorem supplied_reason_verbatim:
  assumes "rr \<noteq> []"
  shows "sublist rr (snd (build_email c l n k m dy w True rr))
    \<and> (sublist default_reason (snd (build_email c l n k m dy w True rr)) \<longleftrightarrow>
         sublist default_reason l \<or> sublist default_reason n \<or> sublist default_reason w
         \<or> sublist default_reason rr)"
proof -
  have body: "snd (build_email c l n k m dy w True rr) =
      resend_head c l n k m dy w @ rr @ resend_tail n"
    using assms by (simp add: resend_content)
  have "sublist default_reason (resend_head c l n k m dy w @ rr @ resend_tail n)"
    if "sublist default_reason l \<or> sublist default_reason n \<or> sublist default_reason w
         \<or> sublist default_reason rr"
    using that
  proof (elim disjE)
    assume "sublist default_reason l"
    then show ?thesis by (rule sublist_trans) (rule fields_in_resend_body(1))
  next
    assume "sublist default_reason n"
    then show ?thesis by (rule sublist_trans) (rule fields_in_resend_body(2))
  next
    assume "sublist default_reason w"
    then show ?thesis by (rule sublist_trans) (rule fields_in_resend_body(3))
  next
    assume "sublist default_reason rr"
    then show ?thesis by (rule sublist_trans) (rule fields_in_resend_body(4))
  qed
  moreover have "sublist default_reason l \<or> sublist default_reason n
      \<or> sublist default_reason w \<or> sublist default_reason rr"
    if "sublist default_reason (resend_head c l n k m dy w @ rr @ resend_tail n)"
    using that resend_no_default by blast
  ultimately show ?thesis
    unfolding body using fields_in_resend_body(4) by blast
qed

theorem supplied_reason_verbatim_witness:
  "[0xC7AC, 0xC1A1, 0xBD80] \<noteq> ([] :: ustr)
   \<and> sublist [0xC7AC, 0xC1A1, 0xBD80]
       (snd (build_email 13 [0xC11C, 0xC6B8] [0xD64D, 0xAE38, 0xB3D9] 5 3 14 [0xBAA9] True
          [0xC7AC, 0xC1A1, 0xBD80]))
   \<and> \<not> sublist default_reason
       (snd (build_email 13 [0xC11C, 0xC6B8] [0xD64D, 0xAE38, 0xB3D9] 5 3 14 [0xBAA9] True
          [0xC7AC, 0xC1A1, 0xBD80]))"
  using supplied_reason_verbatim [of "[0xC7AC, 0xC1A1, 0xBD80]" 13 "[0xC11C, 0xC6B8]"
      "[0xD64D, 0xAE38, 0xB3D9]" 5 3 14 "[0xBAA9]"]
  by (simp add: default_reason_def sublist_Cons_right)

section \<open>C7: an empty name\<close>

text \<open>
  C7: when the name is empty after stripping, \<open>_validate_common_inputs\<close> fails with the
  "enter the name" error whatever the other fields hold (the name is checked first), and
  the callback that asked for the validation does nothing else: \<open>on_generate\<close> leaves the
  form, its two result boxes included, as it was, and \<open>on_save_options\<close> leaves the
  database as it was.
\<close>

theorem empty_name_rejected:
  assumes "py_strip (name_var f) = []"
  shows "validate_common_inputs f = Inl EmptyName
    \<and> on_generate f = (f, Some (ShowError EmptyName))
    \<and> on_save_options f now d = Inr (d, ShowError EmptyName)"
proof -
  have v: "validate_common_inputs f = Inl EmptyName"
    using assms by (simp add: validate_common_inputs_def)
  then show ?thesis by (simp add: on_generate_def on_save_options_def)
qed

theorem empty_name_rejected_witness:
  "py_strip (name_var blank_name_form) = []
   \<and> validate_common_inputs blank_name_form = Inl EmptyName
   \<and> on_generate blank_name_form = (blank_name_form, Some (ShowError EmptyName))
   \<and> on_save_options blank_name_form 0 (Some []) = Inr (Some [], ShowError EmptyName)"
proof -
  have h: "py_strip (name_var blank_name_form) = []"
    by (simp add: blank_name_form_def py_strip_def is_space_def ascii_def)
  show ?thesis using h empty_name_rejected [OF h, of 0 "Some []"] by simp
qed

section \<open>C6: the location\<close>

lemma busan_form_accepted:
  "validate_common_inputs busan_form = Inr (13, 5, 3, 14, [0xBAA9], [0xD64D, 0xAE38, 0xB3D9])"
  by (simp add: validate_common_inputs_def busan_form_def py_int_defs py_strip_def ascii_def
      DAY_OF_WEEK_OPTIONS_def)

text \<open>
  C6, as stated: every input the Validator accepts has a location among the five site
  names, and an input with another location is rejected. The Validator never looks at
  the location: the form with location Busan is accepted, and saving it writes a row
  with that location.
\<close>

theorem location_outside_accepted:
  "location_var busan_form \<notin> set LOCATION_OPTIONS
   \<and> validate_common_inputs busan_form =
       Inr (13, 5, 3, 14, [0xBAA9], [0xD64D, 0xAE38, 0xB3D9])
   \<and> on_save_options busan_form 0 (Some []) =
       Inr (Some [\<lparr>col_cardinal = 13, col_location = [0xBD80, 0xC0B0],
                   col_name = [0xD64D, 0xAE38, 0xB3D9], col_nth_day = 5, col_month = 3,
                   col_day = 14, col_day_of_week = [0xBAA9], col_resend = 0,
                   col_resend_reason = Some [], col_saved_at = 0\<rparr>], ShowInfo_saved)"
proof -
  have "location_var busan_form \<notin> set LOCATION_OPTIONS"
    by (simp add: busan_form_def LOCATION_OPTIONS_def)
  moreover have "on_save_options busan_form 0 (Some []) =
       Inr (Some [\<lparr>col_cardinal = 13, col_location = [0xBD80, 0xC0B0],
                   col_name = [0xD64D, 0xAE38, 0xB3D9], col_nth_day = 5, col_month = 3,
                   col_day = 14, col_day_of_week = [0xBAA9], col_resend = 0,
                   col_resend_reason = Some [], col_saved_at = 0\<rparr>], ShowInfo_saved)"
    by (simp add: on_save_options_def busan_form_accepted save_defs inserted_row_def)
       (simp add: busan_form_def py_strip_def is_surrogate_def)
  ultimately show ?thesis using busan_form_accepted by simp
qed

lemma validate_ignores_location:
  "validate_common_inputs (f\<lparr>location_var := l\<rparr>) = validate_common_inputs f"
  by (simp add: validate_common_inputs_def Let_def cong: if_cong option.case_cong)

text \<open>
  C6, amended: the Validator does not check the location. Whether an input is accepted,
  and with which values, does not depend on its location, and the location handed to
  \<open>_build_email\<close> and to \<open>_save_options\<close> is the location value of the form, unchanged,
  whether or not it is one of the five site names.
\<close>

theorem location_passed_through:
  assumes "validate_common_inputs f = Inr (c, k, m, dy, w, n)"
  shows "validate_common_inputs (f\<lparr>location_var := l\<rparr>) = Inr (c, k, m, dy, w, n)
    \<and> on_generate f =
        (f\<lparr>title_text := fst (build_email c (location_var f) n k m dy w (resend_var f)
                                 (py_strip (resend_reason_var f))),
           content_text := snd (build_email c (location_var f) n k m dy w (resend_var f)
                                 (py_strip (resend_reason_var f)))\<rparr>, None)
    \<and> on_save_options f now d =
        (case save_options c (location_var f) n k m dy w (resend_var f)
                (py_strip (resend_reason_var f)) now d of
           Inl err \<Rightarrow> Inl err
         | Inr d' \<Rightarrow> Inr (d', ShowInfo_saved))"
  using assms
  by (simp add: validate_ignores_location on_generate_def on_save_options_def split_beta)

theorem location_passed_through_witness:
  "validate_common_inputs busan_form = Inr (13, 5, 3, 14, [0xBAA9], [0xD64D, 0xAE38, 0xB3D9])
   \<and> validate_common_inputs (busan_form\<lparr>location_var := [0xC11C, 0xC6B8]\<rparr>) =
       Inr (13, 5, 3, 14, [0xBAA9], [0xD64D, 0xAE38, 0xB3D9])"
  using busan_form_accepted
    location_passed_through [OF busan_form_accepted, of "[0xC11C, 0xC6B8]"]
  by simp

section \<open>Facts about the store\<close>

text \<open>
  A row that is newer than every other row comes first in the ordering of the SELECT,
  and whatever the SELECT returns is a row of the table with the largest \<open>saved_at\<close>.
\<close>

lemma insort_after_smaller:
  fixes f :: "'a \<Rightarrow> 'b::linorder"
  assumes "f x < f y"
  shows "insort_key f y (x # zs) = x # insort_key f y zs"
  using assms by (simp add: less_le_not_le)

lemma foldr_insort_keeps_head:
  fixes f :: "'a \<Rightarrow> 'b::linorder"
  assumes "\<forall>y\<in>set ys. f x < f y"
  shows "\<exists>zs. foldr (insort_key f) ys (x # xs) = x # zs"
  using assms
proof (induction ys)
  case Nil
  then show ?case by simp
next
  case (Cons y ys)
  then obtain zs where "foldr (insort_key f) ys (x # xs) = x # zs" by auto
  moreover have "f x < f y" using Cons.prems by simp
  ultimately show ?case using insort_after_smaller [of f x y zs] by simp
qed

lemma newest_row_first:
  assumes "\<forall>r\<in>set rows. col_saved_at r < col_saved_at x"
  shows "take 1 (order_by_saved_at_desc (rows @ [x])) = [x]"
proof -
  let ?f = "\<lambda>r. - int (col_saved_at r)"
  have "\<forall>r\<in>set rows. ?f x < ?f r" using assms by simp
  then obtain zs where "foldr (insort_key ?f) rows [x] = x # zs"
    using foldr_insort_keeps_head [of rows ?f x "[]"] by blast
  then show ?thesis by (simp add: order_by_saved_at_desc_def sort_key_def)
qed

lemma load_latest_after_newest:
  assumes "\<forall>r\<in>set rows. col_saved_at r < col_saved_at x"
  shows "load_latest_options (Some (rows @ [x])) = Inr (Some (selected_columns x))"
  using newest_row_first [OF assms] by (simp add: load_latest_options_def)

lemma rows_of_init_db: "rows_of (init_db d) = rows_of d"
  by (cases d) (simp_all add: init_db_def rows_of_def)

lemma init_db_Some: "init_db d = Some (rows_of d)"
  by (cases d) (simp_all add: init_db_def rows_of_def)

lemma save_options_binds:
  assumes "fits_int64 c" "fits_int64 k" "fits_int64 m" "fits_int64 dy"
    and "encodable l" "encodable n" "encodable w" "encodable rr"
  shows "save_options c l n k m dy w rs rr now (Some rows) =
           Inr (Some (rows @ [inserted_row c l n k m dy w rs rr now]))"
  using assms by (simp add: save_options_def fits_int64_def)

lemma save_options_result:
  assumes "save_options c l n k m dy w rs rr now d = Inr d'"
  shows "\<exists>rows. d = Some rows \<and> d' = Some (rows @ [inserted_row c l n k m dy w rs rr now])"
  using assms by (cases d) (auto simp: save_options_def split: option.splits)

lemma saved_at_of_inserted_row:
  "col_saved_at (inserted_row c l n k m dy w rs rr now) = now div 1000"
  by (simp add: inserted_row_def)

lemma load_latest_is_a_newest_row:
  assumes "load_latest_options (Some rows) = Inr (Some opt)"
  shows "\<exists>r\<in>set rows. opt = selected_columns r
           \<and> (\<forall>r'\<in>set rows. col_saved_at r' \<le> col_saved_at r)"
proof -
  let ?f = "\<lambda>r. - int (col_saved_at r)"
  let ?s = "sort_key ?f rows"
  from assms obtain r rest where s: "?s = r # rest" and o: "opt = selected_columns r"
    by (cases ?s) (auto simp: load_latest_options_def order_by_saved_at_desc_def)
  have "r \<in> set ?s" using s by simp
  then have r: "r \<in> set rows" by simp
  have "sorted (map ?f ?s)" by (rule sorted_sort_key)
  then have "\<forall>x\<in>set rest. ?f r \<le> ?f x" using s by simp
  moreover have "set rows = insert r (set rest)"
    using s by (metis list.simps(15) set_sort)
  ultimately have "\<forall>r'\<in>set rows. col_saved_at r' \<le> col_saved_at r" by auto
  with r o show ?thesis by blast
qed

text \<open>
  The form with the cohort number \<open>2 ^ 63\<close> passes the Validator, and saving it raises.
\<close>

lemma huge_cohort_form_accepted:
  "validate_common_inputs huge_cohort_form =
     Inr (9223372036854775808, 5, 3, 14, [0xBAA9], [0xD64D, 0xAE38, 0xB3D9])"
  by (simp add: validate_common_inputs_def huge_cohort_form_def py_int_defs py_strip_def
      ascii_def DAY_OF_WEEK_OPTIONS_def)

lemma huge_cohort_form_save_raises:
  "on_save_options huge_cohort_form 200 (Some rows) = Inl OverflowError"
  by (simp add: on_save_options_def huge_cohort_form_accepted save_defs)

text \<open>
  The form whose name is a surrogate passes the Validator, and saving it raises.
\<close>

lemma surrogate_name_form_accepted:
  "validate_common_inputs surrogate_name_form = Inr (13, 5, 3, 14, [0xBAA9], [0xD800])"
  by (simp add: validate_common_inputs_def surrogate_name_form_def py_int_defs py_strip_def
      ascii_def DAY_OF_WEEK_OPTIONS_def)

lemma surrogate_name_form_save_raises:
  "on_save_options surrogate_name_form 200 (Some rows) = Inl UnicodeEncodeError"
  by (simp add: on_save_options_def surrogate_name_form_accepted save_defs)

text \<open>No operation on the store changes or removes a row that is already there.\<close>

lemma exec_op_keeps_rows: "prefix (rows_of d) (rows_of (exec_op op d))"
proof (cases op)
  case Initialize
  then show ?thesis by (simp add: rows_of_init_db)
next
  case (Save c l n k m dy w rs rr now)
  show ?thesis
  proof (cases "save_options c l n k m dy w rs rr now d")
    case (Inl e)
    with Save show ?thesis by simp
  next
    case (Inr d')
    with Save save_options_result [OF Inr] show ?thesis by (auto simp: rows_of_def)
  qed
qed

lemma run_ops_keeps_rows: "prefix (rows_of d) (rows_of (run_ops ops d))"
proof (induction ops arbitrary: d)
  case Nil
  then show ?case by (simp add: run_ops_def)
next
  case (Cons op ops)
  have "prefix (rows_of d) (rows_of (exec_op op d))" by (rule exec_op_keeps_rows)
  moreover have "prefix (rows_of (exec_op op d)) (rows_of (run_ops ops (exec_op op d)))"
    by (rule Cons.IH)
  ultimately have "prefix (rows_of d) (rows_of (run_ops ops (exec_op op d)))"
    by (rule prefix_order.trans)
  then show ?case by (simp add: run_ops_def)
qed

lemma init_db_idem: "init_db (init_db d) = init_db d"
  by (cases d) (simp_all add: init_db_def)

lemma exec_op_resend:
  assumes "\<forall>r\<in>set (rows_of d). col_resend r = 0 \<or> col_resend r = 1"
  shows "\<forall>r\<in>set (rows_of (exec_op op d)). col_resend r = 0 \<or> col_resend r = 1"
proof (cases op)
  case Initialize
  then show ?thesis using assms by (simp add: rows_of_init_db)
next
  case (Save c l n k m dy w rs rr now)
  show ?thesis
  proof (cases "save_options c l n k m dy w rs rr now d")
    case (Inl e)
    with Save assms show ?thesis by simp
  next
    case (Inr d')
    from save_options_result [OF Inr] obtain rows where d: "d = Some rows"
      and d': "d' = Some (rows @ [inserted_row c l n k m dy w rs rr now])" by blast
    have "col_resend (inserted_row c l n k m dy w rs rr now) = 0
        \<or> col_resend (inserted_row c l n k m dy w rs rr now) = 1"
      by (simp add: inserted_row_def)
    moreover have "rows_of (exec_op op d) = rows @ [inserted_row c l n k m dy w rs rr now]"
      using Save Inr d' by (simp add: rows_of_def)
    moreover have "\<forall>r\<in>set rows. col_resend r = 0 \<or> col_resend r = 1"
      using assms d by (simp add: rows_of_def)
    ultimately show ?thesis by auto
  qed
qed

lemma run_ops_resend:
  assumes "\<forall>r\<in>set (rows_of d). col_resend r = 0 \<or> col_resend r = 1"
  shows "\<forall>r\<in>set (rows_of (run_ops ops d)). col_resend r = 0 \<or> col_resend r = 1"
  using assms
proof (induction ops arbitrary: d)
  case Nil
  then show ?case by (simp add: run_ops_def)
next
  case (Cons op ops)
  from Cons.prems have "\<forall>r\<in>set (rows_of (exec_op op d)). col_resend r = 0 \<or> col_resend r = 1"
    by (rule exec_op_resend)
  then have "\<forall>r\<in>set (rows_of (run_ops ops (exec_op op d))). col_resend r = 0 \<or> col_resend r = 1"
    by (rule Cons.IH)
  then show ?case by (simp add: run_ops_def)
qed

section \<open>C2: saving and loading\<close>

text \<open>
  C2, as stated: for every FieldSet, after \<open>_init_db\<close> and \<open>_save_options\<close> the function
  \<open>_load_latest_options\<close> returns the saved values, and the \<open>saved_at\<close> of the row is not
  earlier than the time just before the save. It fails in three ways. A cohort number of
  \<open>2 ^ 63\<close>, which the Validator lets through, makes the save raise \<open>OverflowError\<close>; a
  name that holds a surrogate makes it raise \<open>UnicodeEncodeError\<close>; either way nothing is
  stored and loading from the new store returns no record. And \<open>saved_at\<close> is cut to
  whole seconds: a save at 200.5 s stores second 200, which is earlier than the reading
  200.4 s taken before the save.
\<close>

theorem round_trip_fails:
  "save_options 9223372036854775808 [0xC11C, 0xC6B8] [0xD64D, 0xAE38, 0xB3D9] 5 3 14 [0xBAA9]
     False [] 200500 (init_db None) = Inl OverflowError
   \<and> load_latest_options
       (exec_op (Save 9223372036854775808 [0xC11C, 0xC6B8] [0xD64D, 0xAE38, 0xB3D9] 5 3 14
                   [0xBAA9] False [] 200500)
          (exec_op Initialize None)) = Inr None
   \<and> save_options 13 [0xC11C, 0xC6B8] [0xD800] 5 3 14 [0xBAA9] False [] 200500 (init_db None)
       = Inl UnicodeEncodeError
   \<and> load_latest_options
       (exec_op (Save 13 [0xC11C, 0xC6B8] [0xD800] 5 3 14 [0xBAA9] False [] 200500)
          (exec_op Initialize None)) = Inr None
   \<and> (200400 :: nat) \<le> 200500
   \<and> map col_saved_at
        (rows_of (exec_op (Save 13 [0xC11C, 0xC6B8] [0xD64D, 0xAE38, 0xB3D9] 5 3 14 [0xBAA9]
                            False [] 200500)
                   (exec_op Initialize None))) = [200]
   \<and> (1000 :: nat) * 200 < 200400"
  by (simp add: save_defs init_db_def load_latest_options_def order_by_saved_at_desc_def
      rows_of_def inserted_row_def)

text \<open>
  C2, amended: for every FieldSet whose four numbers fit a 64-bit signed integer and
  whose four texts hold no surrogate, on every store in which no row has a \<open>saved_at\<close>
  equal to or later than that of this save (every new store is one), \<open>_init_db\<close>
  followed by \<open>_save_options\<close> succeeds and appends one row, and \<open>_load_latest_options\<close>
  then returns exactly the nine saved values, \<open>resend\<close> as the integer \<open>int(resend)\<close>
  and without \<open>saved_at\<close>. The \<open>saved_at\<close> of the stored row is the clock reading \<open>now\<close>
  at the insert cut to whole seconds: it is not earlier than the whole second of any
  reading \<open>t0\<close> taken before the save, and it is less than one second behind \<open>now\<close>.
\<close>

theorem save_then_load_round_trip:
  assumes "fits_int64 c" and "fits_int64 k" and "fits_int64 m" and "fits_int64 dy"
    and "encodable l" and "encodable n" and "encodable w" and "encodable rr"
    and "\<forall>r\<in>set (rows_of d). col_saved_at r < now div 1000"
    and "t0 \<le> now"
  shows "save_options c l n k m dy w rs rr now (init_db d) =
           Inr (Some (rows_of d @ [inserted_row c l n k m dy w rs rr now]))
    \<and> load_latest_options (Some (rows_of d @ [inserted_row c l n k m dy w rs rr now])) =
        Inr (Some \<lparr>col_cardinal = c, col_location = l, col_name = n, col_nth_day = k,
                   col_month = m, col_day = dy, col_day_of_week = w,
                   col_resend = (if rs then 1 else 0), col_resend_reason = Some rr\<rparr>)
    \<and> t0 div 1000 \<le> col_saved_at (inserted_row c l n k m dy w rs rr now)
    \<and> 1000 * col_saved_at (inserted_row c l n k m dy w rs rr now) \<le> now
    \<and> now < 1000 * col_saved_at (inserted_row c l n k m dy w rs rr now) + 1000"
proof -
  have "\<forall>r\<in>set (rows_of d). col_saved_at r < col_saved_at (inserted_row c l n k m dy w rs rr now)"
    using assms(9) by (simp add: saved_at_of_inserted_row)
  then have "load_latest_options (Some (rows_of d @ [inserted_row c l n k m dy w rs rr now])) =
      Inr (Some (selected_columns (inserted_row c l n k m dy w rs rr now)))"
    by (rule load_latest_after_newest)
  moreover have "selected_columns (inserted_row c l n k m dy w rs rr now) =
      \<lparr>col_cardinal = c, col_location = l, col_name = n, col_nth_day = k,
       col_month = m, col_day = dy, col_day_of_week = w,
       col_resend = (if rs then 1 else 0), col_resend_reason = Some rr\<rparr>"
    by (simp add: selected_columns_def inserted_row_def)
  moreover have "save_options c l n k m dy w rs rr now (init_db d) =
           Inr (Some (rows_of d @ [inserted_row c l n k m dy w rs rr now]))"
    using assms(1-8) by (simp add: init_db_Some save_options_binds)
  moreover have "t0 div 1000 \<le> now div 1000"
    using assms(10) by (rule div_le_mono)
  moreover have "1000 * (now div 1000) \<le> now" by simp
  moreover have "now < 1000 * (now div 1000) + 1000"
    using mod_less_divisor [of 1000 now] mult_div_mod_eq [of 1000 now] by linarith
  ultimately show ?thesis by (simp add: saved_at_of_inserted_row)
qed

theorem save_then_load_round_trip_witness:
  "fits_int64 13 \<and> fits_int64 5 \<and> fits_int64 3 \<and> fits_int64 14
   \<and> encodable [0xC11C, 0xC6B8] \<and> encodable [0xD64D, 0xAE38, 0xB3D9] \<and> encodable [0xBAA9]
   \<and> encodable [0xC7AC, 0xC1A1, 0xBD80]
   \<and> col_saved_at (inserted_row 12 [0xB300, 0xC804] [0xD64D, 0xAE38, 0xB3D9] 4 3 13
                      [0xC218] False [] 100900) < 200500 div 1000
   \<and> (200400::nat) \<le> 200500
   \<and> load_latest_options
        (Some (rows_of (Some [inserted_row 12 [0xB300, 0xC804] [0xD64D, 0xAE38, 0xB3D9] 4 3 13
                                 [0xC218] False [] 100900])
           @ [inserted_row 13 [0xC11C, 0xC6B8] [0xD64D, 0xAE38, 0xB3D9] 5 3 14 [0xBAA9] True
                [0xC7AC, 0xC1A1, 0xBD80] 200500])) =
        Inr (Some \<lparr>col_cardinal = 13, col_location = [0xC11C, 0xC6B8],
                   col_name = [0xD64D, 0xAE38, 0xB3D9], col_nth_day = 5,
                   col_month = 3, col_day = 14, col_day_of_week = [0xBAA9],
                   col_resend = 1, col_resend_reason = Some [0xC7AC, 0xC1A1, 0xBD80]\<rparr>)
   \<and> (200400::nat) div 1000
        \<le> col_saved_at (inserted_row 13 [0xC11C, 0xC6B8] [0xD64D, 0xAE38, 0xB3D9] 5 3 14
                          [0xBAA9] True [0xC7AC, 0xC1A1, 0xBD80] 200500)"
proof -
  have f: "fits_int64 13" "fits_int64 5" "fits_int64 3" "fits_int64 14"
    by (simp_all add: fits_int64_def)
  have e: "encodable [0xC11C, 0xC6B8]" "encodable [0xD64D, 0xAE38, 0xB3D9]"
    "encodable [0xBAA9]" "encodable [0xC7AC, 0xC1A1, 0xBD80]"
    by (simp_all add: is_surrogate_def)
  have old: "\<forall>r\<in>set (rows_of (Some [inserted_row 12 [0xB300, 0xC804] [0xD64D, 0xAE38, 0xB3D9]
      4 3 13 [0xC218] False [] 100900])). col_saved_at r < 200500 div 1000"
    by (simp add: rows_of_def inserted_row_def)
  have t: "(200400::nat) \<le> 200500" by simp
  have "col_saved_at (inserted_row 12 [0xB300, 0xC804] [0xD64D, 0xAE38, 0xB3D9] 4 3 13
      [0xC218] False [] 100900) < 200500 div 1000"
    by (simp add: inserted_row_def)
  then show ?thesis
    using f e t save_then_load_round_trip [OF f e old t, of True]
    by simp
qed

section \<open>C3: the most recent of two saves\<close>

text \<open>
  C3: after saving a first and then a second, different FieldSet, loading returns the
  second. The statement below runs the code where it does not: the two saves happen
  within the same second, so both rows have the same \<open>saved_at\<close>, the ordering of the
  SELECT has no second key, and the row returned is the first one saved.
\<close>

theorem load_latest_same_second:
  "load_latest_options
     (run_ops [Initialize,
               Save 13 [0xC11C, 0xC6B8] [0xD64D, 0xAE38, 0xB3D9] 5 3 14 [0xBAA9] False [] 200,
               Save 13 [0xC11C, 0xC6B8] [0xD64D, 0xAE38, 0xB3D9] 6 3 15 [0xAE08] False [] 200]
        None) =
     Inr (Some \<lparr>col_cardinal = 13, col_location = [0xC11C, 0xC6B8],
                col_name = [0xD64D, 0xAE38, 0xB3D9], col_nth_day = 5,
                col_month = 3, col_day = 14, col_day_of_week = [0xBAA9],
                col_resend = 0, col_resend_reason = Some []\<rparr>)"
  by (simp add: run_ops_def save_defs init_db_def load_latest_options_def
      order_by_saved_at_desc_def inserted_row_def selected_columns_def)

text \<open>
  The same with readings that differ: 0.1 s and 0.9 s after second 200.
\<close>

lemma load_latest_same_second_later_reading:
  "load_latest_options
     (run_ops [Initialize,
               Save 13 [0xC11C, 0xC6B8] [0xD64D, 0xAE38, 0xB3D9] 5 3 14 [0xBAA9] False []
                 200100,
               Save 13 [0xC11C, 0xC6B8] [0xD64D, 0xAE38, 0xB3D9] 6 3 15 [0xAE08] False []
                 200900]
        None) =
     Inr (Some \<lparr>col_cardinal = 13, col_location = [0xC11C, 0xC6B8],
                col_name = [0xD64D, 0xAE38, 0xB3D9], col_nth_day = 5,
                col_month = 3, col_day = 14, col_day_of_week = [0xBAA9],
                col_resend = 0, col_resend_reason = Some []\<rparr>)"
  by (simp add: run_ops_def save_defs init_db_def load_latest_options_def
      order_by_saved_at_desc_def inserted_row_def selected_columns_def)

section \<open>C9: saving and initialising leave the old rows alone\<close>

text \<open>
  C9, as stated: for every store and every FieldSet, \<open>_save_options\<close> appends exactly one
  row. It fails for a FieldSet with a number outside the 64-bit signed range, for a
  FieldSet with a text that holds a surrogate, and on a database file without the
  table: each time the save raises and appends nothing.
\<close>

theorem save_raises_appends_nothing:
  "save_options 9223372036854775808 [0xC11C, 0xC6B8] [0xD64D, 0xAE38, 0xB3D9] 5 3 14 [0xBAA9]
     False [] 200500 (Some []) = Inl OverflowError
   \<and> rows_of (exec_op (Save 9223372036854775808 [0xC11C, 0xC6B8] [0xD64D, 0xAE38, 0xB3D9] 5 3
                        14 [0xBAA9] False [] 200500) (Some [])) = []
   \<and> save_options 13 [0xC11C, 0xC6B8] [0xD800] 5 3 14 [0xBAA9] False [] 200500 (Some [])
       = Inl UnicodeEncodeError
   \<and> rows_of (exec_op (Save 13 [0xC11C, 0xC6B8] [0xD800] 5 3 14 [0xBAA9] False [] 200500)
                (Some [])) = []
   \<and> save_options 13 [0xC11C, 0xC6B8] [0xD64D, 0xAE38, 0xB3D9] 5 3 14 [0xBAA9] False [] 200500
        None = Inl OperationalError
   \<and> rows_of (exec_op (Save 13 [0xC11C, 0xC6B8] [0xD64D, 0xAE38, 0xB3D9] 5 3 14 [0xBAA9]
                        False [] 200500) None) = []"
  by (simp add: save_defs rows_of_def)

text \<open>
  C9, amended: on every store that has been initialised, for every FieldSet whose four
  numbers fit a 64-bit signed integer and whose four texts hold no surrogate,
  \<open>_save_options\<close> appends exactly one row, after the rows that were there, which stay
  as they are. Whatever the arguments, no sequence of \<open>_init_db\<close> and \<open>_save_options\<close>
  calls (failed ones included) changes or removes an existing row; \<open>_init_db\<close> is
  idempotent and keeps all rows.
\<close>

theorem save_appends_one_row:
  assumes "fits_int64 c" and "fits_int64 k" and "fits_int64 m" and "fits_int64 dy"
    and "encodable l" and "encodable n" and "encodable w" and "encodable rr"
  shows "save_options c l n k m dy w rs rr now (Some rows) =
           Inr (Some (rows @ [inserted_row c l n k m dy w rs rr now]))
    \<and> prefix (rows_of d) (rows_of (run_ops ops d))
    \<and> init_db (init_db d) = init_db d
    \<and> rows_of (init_db d) = rows_of d"
  using assms
  by (simp add: save_options_binds run_ops_keeps_rows init_db_idem rows_of_init_db)

theorem save_appends_one_row_witness:
  "fits_int64 13 \<and> fits_int64 5 \<and> fits_int64 3 \<and> fits_int64 14
   \<and> encodable [0xC11C, 0xC6B8] \<and> encodable [0xD64D, 0xAE38, 0xB3D9] \<and> encodable [0xBAA9]
   \<and> encodable []
   \<and> save_options 13 [0xC11C, 0xC6B8] [0xD64D, 0xAE38, 0xB3D9] 5 3 14 [0xBAA9] False []
        200500
        (Some [inserted_row 12 [0xB300, 0xC804] [0xD64D, 0xAE38, 0xB3D9] 4 3 13 [0xC218]
                 False [] 100900]) =
       Inr (Some [inserted_row 12 [0xB300, 0xC804] [0xD64D, 0xAE38, 0xB3D9] 4 3 13 [0xC218]
                    False [] 100900,
                  inserted_row 13 [0xC11C, 0xC6B8] [0xD64D, 0xAE38, 0xB3D9] 5 3 14 [0xBAA9]
                    False [] 200500])"
proof -
  have f: "fits_int64 13" "fits_int64 5" "fits_int64 3" "fits_int64 14"
    by (simp_all add: fits_int64_def)
  have e: "encodable [0xC11C, 0xC6B8]" "encodable [0xD64D, 0xAE38, 0xB3D9]"
    "encodable [0xBAA9]" "encodable []"
    by (simp_all add: is_surrogate_def)
  show ?thesis
    using f e save_appends_one_row [OF f e, of False 200500
        "[inserted_row 12 [0xB300, 0xC804] [0xD64D, 0xAE38, 0xB3D9] 4 3 13 [0xC218] False []
            100900]"]
    by simp
qed

section \<open>C10: the resend flag in the store\<close>

text \<open>
  C10: \<open>_save_options\<close> stores the resend flag as the integer \<open>int(resend)\<close>, 1 for true
  and 0 for false; in a store written by the program alone every row has \<open>resend\<close> 0 or
  1, and what \<open>_load_latest_options\<close> returns has \<open>resend\<close> as that integer, 0 or 1 (the
  integer column of the row, not a boolean).
\<close>

theorem resend_stored_as_int:
  "(\<forall>d'. save_options c l n k m dy w rs rr now d = Inr d'
        \<longrightarrow> col_resend (last (rows_of d')) = (if rs then 1 else 0))
   \<and> (\<forall>r\<in>set (rows_of (run_ops ops None)). col_resend r = 0 \<or> col_resend r = 1)
   \<and> (\<forall>opt. load_latest_options (run_ops ops None) = Inr (Some opt)
         \<longrightarrow> (\<exists>r\<in>set (rows_of (run_ops ops None)). col_resend opt = col_resend r)
             \<and> (col_resend opt = 0 \<or> col_resend opt = 1))"
proof -
  have stored: "col_resend (last (rows_of d')) = (if rs then 1 else 0)"
    if "save_options c l n k m dy w rs rr now d = Inr d'" for d'
    using save_options_result [OF that] by (auto simp: rows_of_def inserted_row_def)
  have inv: "\<forall>r\<in>set (rows_of (run_ops ops None)). col_resend r = 0 \<or> col_resend r = 1"
    by (rule run_ops_resend) (simp add: rows_of_def)
  have loaded: "(\<exists>r\<in>set (rows_of (run_ops ops None)). col_resend opt = col_resend r)
      \<and> (col_resend opt = 0 \<or> col_resend opt = 1)"
    if l: "load_latest_options (run_ops ops None) = Inr (Some opt)" for opt
  proof (cases "run_ops ops None")
    case None
    with l show ?thesis by (simp add: load_latest_options_def)
  next
    case (Some rows)
    with l have "load_latest_options (Some rows) = Inr (Some opt)" by simp
    then obtain r where "r \<in> set rows" "opt = selected_columns r"
      using load_latest_is_a_newest_row [of rows opt] by blast
    then have "r \<in> set (rows_of (run_ops ops None))" "col_resend opt = col_resend r"
      using Some by (simp_all add: rows_of_def selected_columns_def)
    with inv show ?thesis by metis
  qed
  from stored inv loaded show ?thesis by blast
qed

theorem resend_stored_as_int_witness:
  "load_latest_options
     (run_ops [Initialize,
               Save 13 [0xC11C, 0xC6B8] [0xD64D, 0xAE38, 0xB3D9] 5 3 14 [0xBAA9] True [] 200]
        None) =
     Inr (Some \<lparr>col_cardinal = 13, col_location = [0xC11C, 0xC6B8],
                col_name = [0xD64D, 0xAE38, 0xB3D9], col_nth_day = 5,
                col_month = 3, col_day = 14, col_day_of_week = [0xBAA9],
                col_resend = 1, col_resend_reason = Some []\<rparr>)
   \<and> (col_resend \<lparr>col_cardinal = 13, col_location = [0xC11C, 0xC6B8],
                col_name = [0xD64D, 0xAE38, 0xB3D9], col_nth_day = 5,
                col_month = 3, col_day = 14, col_day_of_week = [0xBAA9],
                col_resend = 1, col_resend_reason = Some []\<rparr> = (0::int)
       \<or> col_resend \<lparr>col_cardinal = 13, col_location = [0xC11C, 0xC6B8],
                col_name = [0xD64D, 0xAE38, 0xB3D9], col_nth_day = 5,
                col_month = 3, col_day = 14, col_day_of_week = [0xBAA9],
                col_resend = 1, col_resend_reason = Some []\<rparr> = (1::int))"
proof -
  have h: "load_latest_options
     (run_ops [Initialize,
               Save 13 [0xC11C, 0xC6B8] [0xD64D, 0xAE38, 0xB3D9] 5 3 14 [0xBAA9] True [] 200]
        None) =
     Inr (Some \<lparr>col_cardinal = 13, col_location = [0xC11C, 0xC6B8],
                col_name = [0xD64D, 0xAE38, 0xB3D9], col_nth_day = 5,
                col_month = 3, col_day = 14, col_day_of_week = [0xBAA9],
                col_resend = 1, col_resend_reason = Some []\<rparr>)"
    by (simp add: run_ops_def save_defs init_db_def load_latest_options_def
        order_by_saved_at_desc_def inserted_row_def selected_columns_def)
  from resend_stored_as_int [of _ _ _ _ _ _ _ _ _ _ _
      "[Initialize,
        Save 13 [0xC11C, 0xC6B8] [0xD64D, 0xAE38, 0xB3D9] 5 3 14 [0xBAA9] True [] 200]"] h
  show ?thesis by blast
qed

end
